theory Spec2Isabelle
  imports Complex_Main "HOL-Library.Sublist" "HOL-Library.Word" "HOL-Library.Log_Nat"
begin

section \<open>LarConectado: the home-automation firmware of Projeto\_webserver.c\<close>

text \<open>
  The firmware keeps six module-level booleans (five room lights and the display), an
  integer \<open>tv\<close> that remembers whether the OLED last showed the "on" message, and talks to
  its peripherals through driver calls. The model keeps the globals in one record and makes
  each driver call that a property depends on visible: a call either extends a log of
  values handed to the driver or is returned as an output event.
\<close>

subsection \<open>C strings and \<open>strstr\<close>\<close>

text \<open>
  A C string is the bytes before the first NUL. \<open>tcp_server_recv\<close> copies the payload
  into a buffer and appends a NUL, so what \<open>strstr\<close> sees of a payload is its part before
  the payload's own first NUL byte, if it has one.
\<close>

definition c_string :: "string \<Rightarrow> string" where
  "c_string bytes = takeWhile (\<lambda>c. c \<noteq> CHR 0x00) bytes"

text \<open>
  \<open>strstr haystack needle\<close> of the C library: the offset of the first occurrence of
  \<open>needle\<close> in \<open>haystack\<close>, \<open>None\<close> for the NULL pointer. Both arguments are the
  contents of C strings.
\<close>

fun strstr :: "string \<Rightarrow> string \<Rightarrow> nat option" where
  "strstr [] needle = (if needle = [] then Some 0 else None)"
| "strstr (h # hs) needle =
     (if prefix needle (h # hs) then Some 0 else map_option Suc (strstr hs needle))"

subsection \<open>The OLED driver\<close>

text \<open>
  The driver \<open>inc/ssd1306\<close> is not among the source files; the specification (section 6)
  describes it as a character-display driver that accepts draw-rectangle and draw-string
  primitives plus an explicit flush (send-data) operation. Its buffer is kept as the value of
  the last fill followed by the drawing calls made since, with their arguments. What
  \<open>ssd1306_send_data\<close> puts on the screen is that buffer: it is the frame.
\<close>

datatype ssd_draw =
  Rect nat nat nat nat bool bool
| Draw_string string nat nat

record ssd1306_t =
  filled :: bool
  drawn :: "ssd_draw list"

text \<open>
  Modelled from the spec: \<open>ssd1306_fill\<close> of the missing driver. It sets every pixel to
  the given value, so nothing drawn before it remains.
\<close>

definition ssd1306_fill :: "bool \<Rightarrow> ssd1306_t \<Rightarrow> ssd1306_t" where
  "ssd1306_fill v b = \<lparr>filled = v, drawn = []\<rparr>"

text \<open>
  Modelled from the spec: \<open>ssd1306_rect\<close> of the missing driver, the draw-rectangle
  primitive. The call is recorded with its arguments (top, left, width, height, value, fill).
\<close>

definition ssd1306_rect ::
  "nat \<Rightarrow> nat \<Rightarrow> nat \<Rightarrow> nat \<Rightarrow> bool \<Rightarrow> bool \<Rightarrow> ssd1306_t \<Rightarrow> ssd1306_t" where
  "ssd1306_rect t l w h v fill b = b\<lparr>drawn := drawn b @ [Rect t l w h v fill]\<rparr>"

text \<open>
  Modelled from the spec: \<open>ssd1306_draw_string\<close> of the missing driver, the draw-string
  primitive. The call is recorded with the text and its position.
\<close>

definition ssd1306_draw_string :: "string \<Rightarrow> nat \<Rightarrow> nat \<Rightarrow> ssd1306_t \<Rightarrow> ssd1306_t" where
  "ssd1306_draw_string str x y b = b\<lparr>drawn := drawn b @ [Draw_string str x y]\<rparr>"

text \<open>What reaches the display during a call: the frames sent and the pauses between them.\<close>

datatype display_event = Send_data ssd1306_t | Sleep_ms nat

subsection \<open>The globals\<close>

text \<open>
  \<open>led_pin_puts\<close> is the sequence of levels written so far to the WiFi chip's LED by
  \<open>cyw43_arch_gpio_put(LED_PIN, _)\<close>, oldest first. \<open>ssd\<close> is the display buffer;
  \<open>main\<close> fills it with \<open>false\<close> before the loop starts.
\<close>

record globals =
  estado_led_sala :: bool
  estado_led_cozinha :: bool
  estado_led_quarto :: bool
  estado_led_banheiro :: bool
  estado_led_quintal :: bool
  estado_display :: bool
  tv :: int
  ssd :: ssd1306_t
  led_pin_puts :: "bool list"

definition initial_globals :: globals where
  "initial_globals =
     \<lparr>estado_led_sala = False, estado_led_cozinha = False, estado_led_quarto = False,
      estado_led_banheiro = False, estado_led_quintal = False, estado_display = False,
      tv = 0, ssd = \<lparr>filled = False, drawn = []\<rparr>, led_pin_puts = []\<rparr>"

definition cyw43_arch_gpio_put_led :: "bool \<Rightarrow> globals \<Rightarrow> globals" where
  "cyw43_arch_gpio_put_led v g = g\<lparr>led_pin_puts := led_pin_puts g @ [v]\<rparr>"

subsection \<open>\<open>user_request\<close>\<close>

text \<open>The argument is the C string that \<open>*request\<close> points to.\<close>

definition user_request :: "string \<Rightarrow> globals \<Rightarrow> globals" where
  "user_request request g =
     (if strstr request ''GET /mudar_estado_luz_sala'' \<noteq> None then
        g\<lparr>estado_led_sala := \<not> estado_led_sala g\<rparr>
      else if strstr request ''GET /mudar_estado_luz_cozinha'' \<noteq> None then
        g\<lparr>estado_led_cozinha := \<not> estado_led_cozinha g\<rparr>
      else if strstr request ''GET /mudar_estado_luz_quarto'' \<noteq> None then
        g\<lparr>estado_led_quarto := \<not> estado_led_quarto g\<rparr>
      else if strstr request ''GET /mudar_estado_luz_banheiro'' \<noteq> None then
        g\<lparr>estado_led_banheiro := \<not> estado_led_banheiro g\<rparr>
      else if strstr request ''GET /mudar_estado_luz_quintal'' \<noteq> None then
        g\<lparr>estado_led_quintal := \<not> estado_led_quintal g\<rparr>
      else if strstr request ''GET /mudar_estado_display'' \<noteq> None then
        g\<lparr>estado_display := \<not> estado_display g\<rparr>
      else if strstr request ''GET /on'' \<noteq> None then
        cyw43_arch_gpio_put_led True g
      else if strstr request ''GET /off'' \<noteq> None then
        cyw43_arch_gpio_put_led False g
      else g)"

subsection \<open>Single and double precision arithmetic\<close>

text \<open>
  The C \<open>float\<close> and \<open>double\<close> of the RP2040 toolchain are IEEE 754 binary32 and
  binary64, every operation rounded to nearest, ties to even. A finite floating-point value is
  modelled by the rational number it denotes, and an operation by the exact operation
  followed by rounding to the format. Overflow to infinity is not modelled: no value
  computed below comes near \<open>2 ^ 128\<close>.

  \<open>ilog2 x\<close> is the binary exponent of a nonzero \<open>x\<close>: the \<open>e\<close> with
  \<open>2 ^ e \<le> \<bar>x\<bar> < 2 ^ (e + 1)\<close>.
\<close>

definition ilog2 :: "rat \<Rightarrow> int" where
  "ilog2 x = (let (p, q) = quotient_of \<bar>x\<bar>; c = bitlen p - bitlen q
              in if 2 powi c \<le> \<bar>x\<bar> then c else c - 1)"

definition round_half_even :: "rat \<Rightarrow> int" where
  "round_half_even x =
     (let f = \<lfloor>x\<rfloor>; d = x - of_int f
      in if d < 1 / 2 then f else if 1 / 2 < d then f + 1 else if even f then f else f + 1)"

text \<open>
  Rounding to a binary format with \<open>p\<close> significant bits and least normal exponent
  \<open>emin\<close>: the spacing of the format around \<open>x\<close> is \<open>2 ^ (e - p + 1)\<close> for the
  exponent \<open>e\<close> of \<open>x\<close>, and stays that of the least normal exponent below it
  (the subnormal numbers).
\<close>

definition round_to_binary :: "nat \<Rightarrow> int \<Rightarrow> rat \<Rightarrow> rat" where
  "round_to_binary p emin x =
     (if x = 0 then 0
      else let e = max (ilog2 x) emin; ulp = 2 powi (e - int p + 1)
           in of_int (round_half_even (x / ulp)) * ulp)"

definition to_float :: "rat \<Rightarrow> rat" where
  "to_float = round_to_binary 24 (- 126)"

definition to_double :: "rat \<Rightarrow> rat" where
  "to_double = round_to_binary 53 (- 1022)"

subsection \<open>\<open>temp_read\<close>\<close>

text \<open>
  The argument is the sample returned by \<open>adc_read()\<close> on channel 4. The literals
  \<open>3.3f\<close>, \<open>0.706f\<close>, \<open>0.001721f\<close> and \<open>27.0f\<close> are the decimal values rounded to
  \<open>float\<close>; \<open>1 << 12\<close> and \<open>raw_value\<close> are integers converted to \<open>float\<close>.
\<close>

definition conversion_factor :: rat where
  "conversion_factor = to_float (to_float (33 / 10) / to_float (2 ^ 12))"

definition temp_read :: "16 word \<Rightarrow> rat" where
  "temp_read raw_value =
     to_float (to_float 27 -
       to_float (to_float (to_float (to_float (of_nat (unat raw_value)) * conversion_factor)
                   - to_float (706 / 1000)) / to_float (1721 / 1000000)))"

text \<open>The calibration formula of the RP2040 documentation, evaluated exactly.\<close>

definition documented_temperature :: "nat \<Rightarrow> rat" where
  "documented_temperature raw =
     27 - ((of_nat raw * (33 / 10) / 4096) - 706 / 1000) / (1721 / 1000000)"

subsection \<open>\<open>tcp_server_recv\<close>\<close>

definition CRLF :: string where
  "CRLF = [CHR 0x0D, CHR 0x0A]"

definition LF :: string where
  "LF = [CHR 0x0A]"

text \<open>
  The format string of the page, split at its only conversion \<open>%.2f\<close>. The two bytes
  \<open>0xC3 0xA3\<close> are the UTF-8 encoding of the a with tilde of "Televisao" in the source.
\<close>

definition html_before_temperature :: string where
  \<open>html_before_temperature =
     ''HTTP/1.1 200 OK'' @ CRLF @
     ''Content-Type: text/html'' @ CRLF @
     CRLF @
     ''<!DOCTYPE html>'' @ LF @
     ''<html>'' @ LF @
     ''<head>'' @ LF @
     ''<title>Controle Residencial</title>'' @ LF @
     ''<style>'' @ LF @
     ''body { background-color:rgb(188, 251, 181); font-family: Arial, sans-serif; text-align: center; margin-top: 50px; }'' @ LF @
     ''h1 { font-size: 64px; margin-bottom: 30px; }'' @ LF @
     ''button { background-color: LightBlue; font-size: 36px; margin: 10px; padding: 20px 40px; border-radius: 10px; }'' @ LF @
     ''.temperature { font-size: 48px; margin-top: 30px; color: #333; }'' @ LF @
     ''</style>'' @ LF @
     ''</head>'' @ LF @
     ''<body>'' @ LF @
     ''<h1>Controle Residencial</h1>'' @ LF @
     ''<form action="./mudar_estado_luz_sala"><button>Luz da Sala</button></form>'' @ LF @
     ''<form action="./mudar_estado_luz_cozinha"><button>Luz da Cozinha</button></form>'' @ LF @
     ''<form action="./mudar_estado_luz_quarto"><button>Luz do Quarto</button></form>'' @ LF @
     ''<form action="./mudar_estado_luz_banheiro"><button>Luz do Banheiro</button></form>'' @ LF @
     ''<form action="./mudar_estado_luz_quintal"><button>Luz do Quintal</button></form>'' @ LF @
     ''<form action="./mudar_estado_display"><button>Televis'' @ [CHR 0xC3, CHR 0xA3] @
       ''o</button></form>'' @ LF @
     ''<p class="temperature">Temperatura Interna: ''\<close>

definition html_after_temperature :: string where
  \<open>html_after_temperature =
     '' &deg;C</p>'' @ LF @
     ''</body>'' @ LF @
     ''</html>'' @ LF\<close>

text \<open>
  \<open>snprintf(html, sizeof(html), ...)\<close> with \<open>char html[2048]\<close>: at most 2047 bytes
  are stored before the terminating NUL. The text that \<open>%.2f\<close> produces for the
  temperature comes from the C library; it is the parameter \<open>fmt_2f\<close>.
\<close>

definition snprintf_html :: "(rat \<Rightarrow> string) \<Rightarrow> rat \<Rightarrow> string" where
  "snprintf_html fmt_2f temperature =
     take 2047 (html_before_temperature @ fmt_2f temperature @ html_after_temperature)"

text \<open>The lwIP calls made on the connection, in order.\<close>

datatype tcp_call = Tcp_close | Tcp_recv_NULL | Tcp_write string | Tcp_output

text \<open>
  \<open>p\<close> is the payload of the received buffer (the \<open>p->len\<close> bytes at \<open>p->payload\<close>),
  \<open>None\<close> for the NULL pointer that lwIP passes when the peer has closed; \<open>raw_value\<close>
  is what \<open>adc_read()\<close> returns during the call. \<open>printf\<close>, \<open>free\<close> and \<open>pbuf_free\<close> touch nothing that is modelled, and
  \<open>malloc\<close> is taken to succeed (the source does not check it). Both paths return
  \<open>ERR_OK\<close>. \<open>tcp_write\<close> is given \<open>strlen(html)\<close> bytes, the C string in the buffer.
\<close>

definition tcp_server_recv ::
  "(rat \<Rightarrow> string) \<Rightarrow> string option \<Rightarrow> 16 word \<Rightarrow> globals \<Rightarrow> globals \<times> tcp_call list" where
  "tcp_server_recv fmt_2f p raw_value g =
     (case p of
        None \<Rightarrow> (g, [Tcp_close, Tcp_recv_NULL])
      | Some payload \<Rightarrow>
          let request = payload @ [CHR 0x00];
              g' = user_request (c_string request) g;
              temperature = temp_read raw_value;
              html = snprintf_html fmt_2f temperature
          in (g', [Tcp_write (c_string html), Tcp_output]))"

subsection \<open>\<open>ligar_luz\<close>\<close>

definition NUM_PIXELS :: int where
  "NUM_PIXELS = 25"

text \<open>
  The \<open>for\<close> loop, with the words handed to \<open>pio_sm_put_blocking\<close> collected in order.
  \<open>i\<close> is never negative, so the C division \<open>i / 5\<close> is \<open>div\<close>.
\<close>

function ligar_luz_loop ::
  "32 word \<Rightarrow> 32 word \<Rightarrow> 32 word \<Rightarrow> 32 word \<Rightarrow> 32 word \<Rightarrow> int \<Rightarrow> 32 word list \<Rightarrow> 32 word list"
  where
  "ligar_luz_loop luz_sala luz_cozinha luz_quarto luz_banheiro luz_quintal i puts =
     (if i < NUM_PIXELS then
        let linha = i div 5;
            valor_led =
              (if linha = 4 then luz_sala
               else if linha = 3 then luz_cozinha
               else if linha = 2 then luz_quarto
               else if linha = 1 then luz_banheiro
               else if linha = 0 then luz_quintal
               else 0x000000)
        in ligar_luz_loop luz_sala luz_cozinha luz_quarto luz_banheiro luz_quintal (i + 1)
             (puts @ [valor_led])
      else puts)"
  by pat_completeness auto
termination
  by (relation "measure (\<lambda>(_, _, _, _, _, i, _). nat (NUM_PIXELS - i))") auto

definition ligar_luz :: "globals \<Rightarrow> 32 word list" where
  "ligar_luz g =
     (let luz_sala = (if estado_led_sala g then 0xFFFFFF00 else 0x00000000);
          luz_cozinha = (if estado_led_cozinha g then 0xFFFFFF00 else 0x00000000);
          luz_quarto = (if estado_led_quarto g then 0xFFFFFF00 else 0x00000000);
          luz_banheiro = (if estado_led_banheiro g then 0xFFFFFF00 else 0x00000000);
          luz_quintal = (if estado_led_quintal g then 0xFFFFFF00 else 0x00000000)
      in ligar_luz_loop luz_sala luz_cozinha luz_quarto luz_banheiro luz_quintal 0 [])"

subsection \<open>\<open>ligar_display\<close>\<close>

text \<open>
  The three calls that clear the buffer and draw the two borders; the source repeats them
  at the start of the function and in both drawing branches.
\<close>

definition moldura :: "bool \<Rightarrow> ssd1306_t \<Rightarrow> ssd1306_t" where
  "moldura cor b =
     ssd1306_rect 3 3 122 60 cor (\<not> cor)
       (ssd1306_rect 0 0 127 63 cor (\<not> cor) (ssd1306_fill (\<not> cor) b))"

definition ligar_display :: "globals \<Rightarrow> globals \<times> display_event list" where
  "ligar_display g =
     (let cor = True;
          ssd1 = moldura cor (ssd g)
      in if estado_display g then
           let ssd2 = ssd1306_draw_string ''LIGADA'' 38 40
                        (ssd1306_draw_string ''TELEVISAO '' 35 30 (moldura cor ssd1))
           in (g\<lparr>ssd := ssd2, tv := 1\<rparr>, [Send_data ssd2])
         else if tv g = 1 then
           let ssd2 = ssd1306_draw_string ''DESLIGADA'' 28 40
                        (ssd1306_draw_string ''TELEVISAO '' 30 30 (moldura cor ssd1));
               ssd3 = ssd1306_fill (\<not> cor) ssd2
           in (g\<lparr>ssd := ssd3, tv := 0\<rparr>, [Send_data ssd2, Sleep_ms 2000, Send_data ssd3])
         else (g\<lparr>ssd := ssd1\<rparr>, []))"

text \<open>
  Successive iterations of the main loop as far as the display is concerned: before each
  call of \<open>ligar_display\<close> the display flag has the next value of the given sequence (the
  request handler runs between iterations), and the events of all calls are collected.
\<close>

fun display_cycles :: "bool list \<Rightarrow> globals \<Rightarrow> globals \<times> display_event list" where
  "display_cycles [] g = (g, [])"
| "display_cycles (d # ds) g =
     (let (g1, events1) = ligar_display (g\<lparr>estado_display := d\<rparr>);
          (g2, events2) = display_cycles ds g1
      in (g2, events1 @ events2))"

text \<open>The three frames the function can send.\<close>

definition frame_on :: ssd1306_t where
  "frame_on =
     \<lparr>filled = False,
      drawn = [Rect 0 0 127 63 True False, Rect 3 3 122 60 True False,
               Draw_string ''TELEVISAO '' 35 30, Draw_string ''LIGADA'' 38 40]\<rparr>"

definition frame_off :: ssd1306_t where
  "frame_off =
     \<lparr>filled = False,
      drawn = [Rect 0 0 127 63 True False, Rect 3 3 122 60 True False,
               Draw_string ''TELEVISAO '' 30 30, Draw_string ''DESLIGADA'' 28 40]\<rparr>"

definition frame_blank :: ssd1306_t where
  "frame_blank = \<lparr>filled = False, drawn = []\<rparr>"

subsection \<open>\<open>measure_distance_cm\<close>\<close>

text \<open>
  The sensor is an input: \<open>echo n\<close> is the level that the \<open>n\<close>-th call of
  \<open>gpio_get(ECHO_PIN)\<close> after the trigger pulse returns (counting from 0), and \<open>clock n\<close> is
  the microsecond counter that \<open>get_absolute_time()\<close> returns when called right after that
  read. The two busy-wait loops have no other exit than the level they wait for; a loop that
  never sees it does not return, which is the value \<open>None\<close>. Each loop returns the index of
  the read that ended it. The trigger pulse that \<open>send_trigger_pulse\<close> puts on \<open>TRIG_PIN\<close>
  before the first read is an output and changes nothing that is read here.
\<close>

partial_function (option) wait_echo_high :: "(nat \<Rightarrow> bool) \<Rightarrow> nat \<Rightarrow> nat option" where
  "wait_echo_high echo n = (if echo n = False then wait_echo_high echo (n + 1) else Some n)"

partial_function (option) wait_echo_low :: "(nat \<Rightarrow> bool) \<Rightarrow> nat \<Rightarrow> nat option" where
  "wait_echo_low echo n = (if echo n = True then wait_echo_low echo (n + 1) else Some n)"

declare wait_echo_high.simps [code]

declare wait_echo_low.simps [code]

text \<open>
  \<open>absolute_time_diff_us\<close> subtracts the two 64-bit counters and reads the difference as
  signed. In \<open>pulse_duration / 58.0\<close> the integer is converted to \<open>double\<close> and divided in
  \<open>double\<close>; the assignment to \<open>float distance_cm\<close> rounds the quotient to \<open>float\<close>.
\<close>

definition distance_cm_of :: "int \<Rightarrow> rat" where
  "distance_cm_of pulse_duration =
     to_float (to_double (to_double (of_int pulse_duration) / to_double 58))"

definition measure_distance_cm :: "(nat \<Rightarrow> bool) \<Rightarrow> (nat \<Rightarrow> 64 word) \<Rightarrow> rat option" where
  "measure_distance_cm echo clock =
     (case wait_echo_high echo 0 of
        None \<Rightarrow> None
      | Some k \<Rightarrow>
          let start = clock k in
          (case wait_echo_low echo (k + 1) of
             None \<Rightarrow> None
           | Some j \<Rightarrow>
               let end = clock j;
                   pulse_duration = sint (end - start)
               in Some (distance_cm_of pulse_duration)))"

subsection \<open>The properties in the specification's words\<close>

text \<open>The eight strings that \<open>user_request\<close> looks for, in the order of its checks.\<close>

definition recognized_commands :: "string list" where
  "recognized_commands =
     [''GET /mudar_estado_luz_sala'', ''GET /mudar_estado_luz_cozinha'',
      ''GET /mudar_estado_luz_quarto'', ''GET /mudar_estado_luz_banheiro'',
      ''GET /mudar_estado_luz_quintal'', ''GET /mudar_estado_display'',
      ''GET /on'', ''GET /off'']"

text \<open>
  The policy the specification asks for: the request begins with a recognized command
  (method and path), that is, its path is a command path or continues one.
\<close>

definition exact_or_prefix_match :: "string \<Rightarrow> bool" where
  "exact_or_prefix_match request = list_ex (\<lambda>c. prefix c request) recognized_commands"

text \<open>
  The path of a request, as the specification's interface lists it: the text of the request
  line between its first and its second space.
\<close>

definition request_path :: "string \<Rightarrow> string" where
  "request_path request =
     takeWhile (\<lambda>c. c \<noteq> CHR '' '') (drop 1 (dropWhile (\<lambda>c. c \<noteq> CHR '' '') request))"

text \<open>The eight paths of the interface, and a path that is one of them or continues one.\<close>

definition recognized_paths :: "string list" where
  "recognized_paths =
     [''/mudar_estado_luz_sala'', ''/mudar_estado_luz_cozinha'', ''/mudar_estado_luz_quarto'',
      ''/mudar_estado_luz_banheiro'', ''/mudar_estado_luz_quintal'', ''/mudar_estado_display'',
      ''/on'', ''/off'']"

definition path_recognized :: "string \<Rightarrow> bool" where
  "path_recognized request = list_ex (\<lambda>p. prefix p (request_path request)) recognized_paths"

text \<open>A recognized command occurs somewhere in the request.\<close>

definition contains_command :: "string \<Rightarrow> bool" where
  "contains_command request = list_ex (\<lambda>c. sublist c request) recognized_commands"

text \<open>
  The router as a table: each command with its action, in the order of the checks, and the
  action of the first entry whose command occurs in the request.
\<close>

definition command_table :: "(string \<times> (globals \<Rightarrow> globals)) list" where
  "command_table =
     [(''GET /mudar_estado_luz_sala'', \<lambda>g. g\<lparr>estado_led_sala := \<not> estado_led_sala g\<rparr>),
      (''GET /mudar_estado_luz_cozinha'', \<lambda>g. g\<lparr>estado_led_cozinha := \<not> estado_led_cozinha g\<rparr>),
      (''GET /mudar_estado_luz_quarto'', \<lambda>g. g\<lparr>estado_led_quarto := \<not> estado_led_quarto g\<rparr>),
      (''GET /mudar_estado_luz_banheiro'', \<lambda>g. g\<lparr>estado_led_banheiro := \<not> estado_led_banheiro g\<rparr>),
      (''GET /mudar_estado_luz_quintal'', \<lambda>g. g\<lparr>estado_led_quintal := \<not> estado_led_quintal g\<rparr>),
      (''GET /mudar_estado_display'', \<lambda>g. g\<lparr>estado_display := \<not> estado_display g\<rparr>),
      (''GET /on'', cyw43_arch_gpio_put_led True),
      (''GET /off'', cyw43_arch_gpio_put_led False)]"

definition first_match_route :: "string \<Rightarrow> globals \<Rightarrow> globals" where
  "first_match_route request g =
     (case find (\<lambda>(c, act). sublist c request) command_table of
        None \<Rightarrow> g
      | Some (c, act) \<Rightarrow> act g)"

text \<open>How many of the six flags differ, and how many LED writes were added.\<close>

definition flags_changed :: "globals \<Rightarrow> globals \<Rightarrow> nat" where
  "flags_changed g g' =
     length (filter id
       [estado_led_sala g' \<noteq> estado_led_sala g, estado_led_cozinha g' \<noteq> estado_led_cozinha g,
        estado_led_quarto g' \<noteq> estado_led_quarto g, estado_led_banheiro g' \<noteq> estado_led_banheiro g,
        estado_led_quintal g' \<noteq> estado_led_quintal g, estado_display g' \<noteq> estado_display g])"

definition led_puts_made :: "globals \<Rightarrow> globals \<Rightarrow> nat" where
  "led_puts_made g g' = length (led_pin_puts g') - length (led_pin_puts g)"

definition http_200_html_header :: string where
  "http_200_html_header = ''HTTP/1.1 200 OK'' @ CRLF @ ''Content-Type: text/html'' @ CRLF @ CRLF"

section \<open>The request router\<close>

subsection \<open>\<open>strstr\<close> is substring search\<close>

lemma strstr_sublist: "strstr haystack needle \<noteq> None \<longleftrightarrow> sublist needle haystack"
  by (induction haystack) (auto simp: sublist_Cons_right)

lemma c_string_terminated: "c_string (payload @ [CHR 0x00]) = c_string payload"
  by (induction payload) (simp_all add: c_string_def)

lemma user_request_sublist:
  "user_request request g =
     (if sublist ''GET /mudar_estado_luz_sala'' request then
        g\<lparr>estado_led_sala := \<not> estado_led_sala g\<rparr>
      else if sublist ''GET /mudar_estado_luz_cozinha'' request then
        g\<lparr>estado_led_cozinha := \<not> estado_led_cozinha g\<rparr>
      else if sublist ''GET /mudar_estado_luz_quarto'' request then
        g\<lparr>estado_led_quarto := \<not> estado_led_quarto g\<rparr>
      else if sublist ''GET /mudar_estado_luz_banheiro'' request then
        g\<lparr>estado_led_banheiro := \<not> estado_led_banheiro g\<rparr>
      else if sublist ''GET /mudar_estado_luz_quintal'' request then
        g\<lparr>estado_led_quintal := \<not> estado_led_quintal g\<rparr>
      else if sublist ''GET /mudar_estado_display'' request then
        g\<lparr>estado_display := \<not> estado_display g\<rparr>
      else if sublist ''GET /on'' request then
        cyw43_arch_gpio_put_led True g
      else if sublist ''GET /off'' request then
        cyw43_arch_gpio_put_led False g
      else g)"
  by (simp only: user_request_def strstr_sublist)

text \<open>Every action of the router changes the globals: a flag flips or the LED log grows.\<close>

lemma action_changes_globals:
  "g\<lparr>estado_led_sala := \<not> estado_led_sala g\<rparr> \<noteq> g"
  "g\<lparr>estado_led_cozinha := \<not> estado_led_cozinha g\<rparr> \<noteq> g"
  "g\<lparr>estado_led_quarto := \<not> estado_led_quarto g\<rparr> \<noteq> g"
  "g\<lparr>estado_led_banheiro := \<not> estado_led_banheiro g\<rparr> \<noteq> g"
  "g\<lparr>estado_led_quintal := \<not> estado_led_quintal g\<rparr> \<noteq> g"
  "g\<lparr>estado_display := \<not> estado_display g\<rparr> \<noteq> g"
  "cyw43_arch_gpio_put_led v g \<noteq> g"
  by (cases g; simp add: cyw43_arch_gpio_put_led_def)+

text \<open>The else-if chain over eight arbitrary conditions.\<close>

lemma chain_properties:
  fixes g :: globals and b1 b2 b3 b4 b5 b6 b7 b8 :: bool
  defines "g' \<equiv>
     (if b1 then g\<lparr>estado_led_sala := \<not> estado_led_sala g\<rparr>
      else if b2 then g\<lparr>estado_led_cozinha := \<not> estado_led_cozinha g\<rparr>
      else if b3 then g\<lparr>estado_led_quarto := \<not> estado_led_quarto g\<rparr>
      else if b4 then g\<lparr>estado_led_banheiro := \<not> estado_led_banheiro g\<rparr>
      else if b5 then g\<lparr>estado_led_quintal := \<not> estado_led_quintal g\<rparr>
      else if b6 then g\<lparr>estado_display := \<not> estado_display g\<rparr>
      else if b7 then cyw43_arch_gpio_put_led True g
      else if b8 then cyw43_arch_gpio_put_led False g
      else g)"
  shows "flags_changed g g' + led_puts_made g g' \<le> 1"
    and "(g' \<noteq> g) = (b1 \<or> b2 \<or> b3 \<or> b4 \<or> b5 \<or> b6 \<or> b7 \<or> b8)"
  unfolding g'_def
  by (simp add: flags_changed_def led_puts_made_def cyw43_arch_gpio_put_led_def)
    (simp add: action_changes_globals)

lemma user_request_changes_iff:
  "(user_request request g \<noteq> g) = contains_command request"
  unfolding user_request_sublist chain_properties(2) contains_command_def recognized_commands_def
  by (simp only: list_ex_Cons_iff list_ex_Nil_iff simp_thms)

text \<open>
  Routing any request twice restores all six flags; only the LED writes of \<open>/on\<close> and
  \<open>/off\<close> accumulate.
\<close>

lemma chain_twice:
  fixes g :: globals and b1 b2 b3 b4 b5 b6 b7 b8 :: bool
  defines "step \<equiv> \<lambda>g.
     (if b1 then g\<lparr>estado_led_sala := \<not> estado_led_sala g\<rparr>
      else if b2 then g\<lparr>estado_led_cozinha := \<not> estado_led_cozinha g\<rparr>
      else if b3 then g\<lparr>estado_led_quarto := \<not> estado_led_quarto g\<rparr>
      else if b4 then g\<lparr>estado_led_banheiro := \<not> estado_led_banheiro g\<rparr>
      else if b5 then g\<lparr>estado_led_quintal := \<not> estado_led_quintal g\<rparr>
      else if b6 then g\<lparr>estado_display := \<not> estado_display g\<rparr>
      else if b7 then cyw43_arch_gpio_put_led True g
      else if b8 then cyw43_arch_gpio_put_led False g
      else g)"
  shows "(step (step g))\<lparr>led_pin_puts := led_pin_puts g\<rparr> = g"
  unfolding step_def by (simp add: cyw43_arch_gpio_put_led_def)

lemma user_request_twice:
  "(user_request request (user_request request g))\<lparr>led_pin_puts := led_pin_puts g\<rparr> = g"
  unfolding user_request_sublist by (rule chain_twice)

lemma find_first_of_eight:
  "(case find (\<lambda>(c, act). P c)
       [(c1, a1), (c2, a2), (c3, a3), (c4, a4), (c5, a5), (c6, a6), (c7, a7), (c8, a8)] of
      None \<Rightarrow> g
    | Some (c, act) \<Rightarrow> act g) =
   (if P c1 then a1 g else if P c2 then a2 g else if P c3 then a3 g else if P c4 then a4 g
    else if P c5 then a5 g else if P c6 then a6 g else if P c7 then a7 g
    else if P c8 then a8 g else g)"
  by simp

subsection \<open>The six toggle requests\<close>

lemma strstr_toggle_paths:
  "strstr ''GET /mudar_estado_luz_sala'' ''GET /mudar_estado_luz_sala'' = Some 0"
  "strstr ''GET /mudar_estado_luz_cozinha'' ''GET /mudar_estado_luz_sala'' = None"
  "strstr ''GET /mudar_estado_luz_cozinha'' ''GET /mudar_estado_luz_cozinha'' = Some 0"
  "strstr ''GET /mudar_estado_luz_quarto'' ''GET /mudar_estado_luz_sala'' = None"
  "strstr ''GET /mudar_estado_luz_quarto'' ''GET /mudar_estado_luz_cozinha'' = None"
  "strstr ''GET /mudar_estado_luz_quarto'' ''GET /mudar_estado_luz_quarto'' = Some 0"
  "strstr ''GET /mudar_estado_luz_banheiro'' ''GET /mudar_estado_luz_sala'' = None"
  "strstr ''GET /mudar_estado_luz_banheiro'' ''GET /mudar_estado_luz_cozinha'' = None"
  "strstr ''GET /mudar_estado_luz_banheiro'' ''GET /mudar_estado_luz_quarto'' = None"
  "strstr ''GET /mudar_estado_luz_banheiro'' ''GET /mudar_estado_luz_banheiro'' = Some 0"
  "strstr ''GET /mudar_estado_luz_quintal'' ''GET /mudar_estado_luz_sala'' = None"
  "strstr ''GET /mudar_estado_luz_quintal'' ''GET /mudar_estado_luz_cozinha'' = None"
  "strstr ''GET /mudar_estado_luz_quintal'' ''GET /mudar_estado_luz_quarto'' = None"
  "strstr ''GET /mudar_estado_luz_quintal'' ''GET /mudar_estado_luz_banheiro'' = None"
  "strstr ''GET /mudar_estado_luz_quintal'' ''GET /mudar_estado_luz_quintal'' = Some 0"
  "strstr ''GET /mudar_estado_display'' ''GET /mudar_estado_luz_sala'' = None"
  "strstr ''GET /mudar_estado_display'' ''GET /mudar_estado_luz_cozinha'' = None"
  "strstr ''GET /mudar_estado_display'' ''GET /mudar_estado_luz_quarto'' = None"
  "strstr ''GET /mudar_estado_display'' ''GET /mudar_estado_luz_banheiro'' = None"
  "strstr ''GET /mudar_estado_display'' ''GET /mudar_estado_luz_quintal'' = None"
  "strstr ''GET /mudar_estado_display'' ''GET /mudar_estado_display'' = Some 0"
  by code_simp+

lemma user_request_toggle_paths:
  "user_request ''GET /mudar_estado_luz_sala'' g = g\<lparr>estado_led_sala := \<not> estado_led_sala g\<rparr>"
  "user_request ''GET /mudar_estado_luz_cozinha'' g =
     g\<lparr>estado_led_cozinha := \<not> estado_led_cozinha g\<rparr>"
  "user_request ''GET /mudar_estado_luz_quarto'' g =
     g\<lparr>estado_led_quarto := \<not> estado_led_quarto g\<rparr>"
  "user_request ''GET /mudar_estado_luz_banheiro'' g =
     g\<lparr>estado_led_banheiro := \<not> estado_led_banheiro g\<rparr>"
  "user_request ''GET /mudar_estado_luz_quintal'' g =
     g\<lparr>estado_led_quintal := \<not> estado_led_quintal g\<rparr>"
  "user_request ''GET /mudar_estado_display'' g = g\<lparr>estado_display := \<not> estado_display g\<rparr>"
  by (simp_all only: user_request_def strstr_toggle_paths option.simps simp_thms if_True if_False)

text \<open>The request a browser sends for the cozinha button of the page.\<close>

lemma browser_request:
  "user_request (''GET /mudar_estado_luz_cozinha? HTTP/1.1'' @ CRLF @ ''Host: 192.168.0.10'' @ CRLF @ CRLF) g =
     g\<lparr>estado_led_cozinha := \<not> estado_led_cozinha g\<rparr>"
proof -
  have "strstr (''GET /mudar_estado_luz_cozinha? HTTP/1.1'' @ CRLF @ ''Host: 192.168.0.10'' @ CRLF @ CRLF)
          ''GET /mudar_estado_luz_sala'' = None"
    "strstr (''GET /mudar_estado_luz_cozinha? HTTP/1.1'' @ CRLF @ ''Host: 192.168.0.10'' @ CRLF @ CRLF)
          ''GET /mudar_estado_luz_cozinha'' = Some 0"
    by code_simp+
  then show ?thesis
    by (simp only: user_request_def option.simps simp_thms if_True if_False)
qed

text \<open>
  C2: for each of the six flags, one routing of its toggle request inverts the flag, and a
  second routing of the same request returns the flag to the value it started with, whatever
  that value was.
\<close>

theorem toggle_twice_involution:
  "estado_led_sala (user_request ''GET /mudar_estado_luz_sala'' g) = (\<not> estado_led_sala g) \<and>
   estado_led_sala (user_request ''GET /mudar_estado_luz_sala''
     (user_request ''GET /mudar_estado_luz_sala'' g)) = estado_led_sala g \<and>
   estado_led_cozinha (user_request ''GET /mudar_estado_luz_cozinha'' g)
     = (\<not> estado_led_cozinha g) \<and>
   estado_led_cozinha (user_request ''GET /mudar_estado_luz_cozinha''
     (user_request ''GET /mudar_estado_luz_cozinha'' g)) = estado_led_cozinha g \<and>
   estado_led_quarto (user_request ''GET /mudar_estado_luz_quarto'' g)
     = (\<not> estado_led_quarto g) \<and>
   estado_led_quarto (user_request ''GET /mudar_estado_luz_quarto''
     (user_request ''GET /mudar_estado_luz_quarto'' g)) = estado_led_quarto g \<and>
   estado_led_banheiro (user_request ''GET /mudar_estado_luz_banheiro'' g)
     = (\<not> estado_led_banheiro g) \<and>
   estado_led_banheiro (user_request ''GET /mudar_estado_luz_banheiro''
     (user_request ''GET /mudar_estado_luz_banheiro'' g)) = estado_led_banheiro g \<and>
   estado_led_quintal (user_request ''GET /mudar_estado_luz_quintal'' g)
     = (\<not> estado_led_quintal g) \<and>
   estado_led_quintal (user_request ''GET /mudar_estado_luz_quintal''
     (user_request ''GET /mudar_estado_luz_quintal'' g)) = estado_led_quintal g \<and>
   estado_display (user_request ''GET /mudar_estado_display'' g) = (\<not> estado_display g) \<and>
   estado_display (user_request ''GET /mudar_estado_display''
     (user_request ''GET /mudar_estado_display'' g)) = estado_display g"
  unfolding user_request_toggle_paths by simp

text \<open>
  C3: routing one of the six toggle requests changes the designated flag and nothing else:
  the globals after the call are the globals before it with that one flag inverted, so the
  other five flags keep their values (and so do \<open>tv\<close>, the display buffer and the LED).
\<close>

theorem toggle_path_frame:
  "user_request ''GET /mudar_estado_luz_sala'' g = g\<lparr>estado_led_sala := \<not> estado_led_sala g\<rparr> \<and>
   user_request ''GET /mudar_estado_luz_cozinha'' g
     = g\<lparr>estado_led_cozinha := \<not> estado_led_cozinha g\<rparr> \<and>
   user_request ''GET /mudar_estado_luz_quarto'' g
     = g\<lparr>estado_led_quarto := \<not> estado_led_quarto g\<rparr> \<and>
   user_request ''GET /mudar_estado_luz_banheiro'' g
     = g\<lparr>estado_led_banheiro := \<not> estado_led_banheiro g\<rparr> \<and>
   user_request ''GET /mudar_estado_luz_quintal'' g
     = g\<lparr>estado_led_quintal := \<not> estado_led_quintal g\<rparr> \<and>
   user_request ''GET /mudar_estado_display'' g = g\<lparr>estado_display := \<not> estado_display g\<rparr>"
  by (simp only: user_request_toggle_paths simp_thms)

subsection \<open>The matching policy\<close>

text \<open>
  C1, as the specification states it, fails: the request below asks for \<open>/favicon.ico\<close>
  and carries the sala command in a header line. It does not begin with any recognized
  command, and the sala light is switched all the same.
\<close>

theorem substring_match_counterexample:
  "estado_led_sala (user_request
      (''GET /favicon.ico HTTP/1.1'' @ CRLF @ ''X-Note: GET /mudar_estado_luz_sala'' @ CRLF @ CRLF)
      initial_globals) \<and>
   \<not> exact_or_prefix_match
      (''GET /favicon.ico HTTP/1.1'' @ CRLF @ ''X-Note: GET /mudar_estado_luz_sala'' @ CRLF @ CRLF)"
  by code_simp

text \<open>
  C1, amended: the matching policy is a substring search of the request against the closed
  set of eight recognized command strings. The router acts exactly when a recognized command
  occurs somewhere in the request; a request that begins with a recognized command is one
  such request.
\<close>

theorem user_request_acts_iff_substring:
  "(user_request request g \<noteq> g) = contains_command request \<and>
   (exact_or_prefix_match request \<longrightarrow> user_request request g \<noteq> g)"
proof -
  have "contains_command request" if "exact_or_prefix_match request"
    using that by (auto simp: contains_command_def exact_or_prefix_match_def list_ex_iff)
  then show ?thesis
    by (simp add: user_request_changes_iff)
qed

theorem user_request_acts_iff_substring_witness:
  "exact_or_prefix_match ''GET /on HTTP/1.1'' \<and>
   user_request ''GET /on HTTP/1.1'' initial_globals \<noteq> initial_globals"
proof -
  have h: "exact_or_prefix_match ''GET /on HTTP/1.1''"
    by code_simp
  with user_request_acts_iff_substring [of "''GET /on HTTP/1.1''" initial_globals]
  show ?thesis by blast
qed

text \<open>
  C10: one call performs at most one action. The call does what the first entry of the
  command table, in the order sala, cozinha, quarto, banheiro, quintal, display, on, off,
  whose command occurs in the request prescribes, and nothing when there is none; so the
  number of flags it changes plus the number of LED writes it makes is at most one, whatever
  the request contains.
\<close>

theorem user_request_first_match:
  "user_request request g = first_match_route request g \<and>
   flags_changed g (user_request request g) + led_puts_made g (user_request request g) \<le> 1"
proof
  show "user_request request g = first_match_route request g"
    unfolding first_match_route_def command_table_def find_first_of_eight
    by (rule user_request_sublist)
  show "flags_changed g (user_request request g) + led_puts_made g (user_request request g) \<le> 1"
    unfolding user_request_sublist by (rule chain_properties(1))
qed

text \<open>A request with three commands in it: only the first check of the chain fires.\<close>

lemma several_commands_one_action:
  "user_request ''GET /off GET /mudar_estado_display GET /mudar_estado_luz_quarto'' g =
     g\<lparr>estado_led_quarto := \<not> estado_led_quarto g\<rparr>"
proof -
  have "strstr ''GET /off GET /mudar_estado_display GET /mudar_estado_luz_quarto''
          ''GET /mudar_estado_luz_sala'' = None"
    "strstr ''GET /off GET /mudar_estado_display GET /mudar_estado_luz_quarto''
          ''GET /mudar_estado_luz_cozinha'' = None"
    "strstr ''GET /off GET /mudar_estado_display GET /mudar_estado_luz_quarto''
          ''GET /mudar_estado_luz_quarto'' = Some 35"
    by code_simp+
  then show ?thesis
    by (simp only: user_request_def option.simps simp_thms if_True if_False)
qed

subsection \<open>Unrecognized requests\<close>

text \<open>
  C4, as the specification states it, fails: the request below asks for the path
  \<open>/status\<close>, which is none of the eight recognized paths and continues none of them,
  and carries the display command in a header line. Routing it switches the display flag
  from false to true.
\<close>

theorem unrecognized_path_counterexample:
  "\<not> path_recognized
      (''GET /status HTTP/1.1'' @ CRLF @ ''X-Note: GET /mudar_estado_display'' @ CRLF @ CRLF) \<and>
   \<not> estado_display initial_globals \<and>
   estado_display (user_request
      (c_string (''GET /status HTTP/1.1'' @ CRLF @ ''X-Note: GET /mudar_estado_display'' @ CRLF @ CRLF))
      initial_globals)"
  by code_simp

text \<open>The callback routes the C string of the payload and answers with the formatted page.\<close>

lemma tcp_server_recv_request:
  "tcp_server_recv fmt_2f (Some payload) raw_value g =
     (user_request (c_string payload) g,
      [Tcp_write (c_string (snprintf_html fmt_2f (temp_read raw_value))), Tcp_output])"
  by (simp add: tcp_server_recv_def c_string_terminated Let_def)

text \<open>The page does not depend on the request or on the flags.\<close>

lemma response_independent:
  "snd (tcp_server_recv fmt_2f (Some payload) raw_value g) =
   snd (tcp_server_recv fmt_2f (Some payload') raw_value g')"
  by (simp add: tcp_server_recv_def Let_def)

text \<open>
  The two parts of the format string: 1026 bytes before the temperature and 28 after it,
  none of them NUL, so a temperature text of up to 993 bytes without a NUL is neither cut by
  \<open>snprintf\<close> nor by \<open>strlen\<close>.
\<close>

lemma page_parts:
  \<open>CHR 0x00 \<notin> set html_before_temperature\<close>
  \<open>CHR 0x00 \<notin> set html_after_temperature\<close>
  \<open>length html_before_temperature = 1026\<close>
  \<open>length html_after_temperature = 28\<close>
  by code_simp+

lemma snprintf_html_fits:
  assumes "CHR 0x00 \<notin> set (fmt_2f t)" "length (fmt_2f t) \<le> 993"
  shows "c_string (snprintf_html fmt_2f t) =
     html_before_temperature @ fmt_2f t @ html_after_temperature"
proof -
  have "length (html_before_temperature @ fmt_2f t @ html_after_temperature) \<le> 2047"
    using assms(2) by (simp add: page_parts)
  then have "snprintf_html fmt_2f t = html_before_temperature @ fmt_2f t @ html_after_temperature"
    unfolding snprintf_html_def by (rule take_all)
  moreover have "CHR 0x00 \<notin> set (html_before_temperature @ fmt_2f t @ html_after_temperature)"
    using assms(1) by (simp add: page_parts)
  then have "c_string (html_before_temperature @ fmt_2f t @ html_after_temperature) =
      html_before_temperature @ fmt_2f t @ html_after_temperature"
    unfolding c_string_def by (simp only: takeWhile_eq_all_conv) blast
  ultimately show ?thesis by simp
qed

text \<open>
  What the page holds: the status line and the header, the six button forms, and the
  temperature between "Temperatura Interna: " and the degree sign.
\<close>

lemma sublist_in_tail: "sublist xs zs \<Longrightarrow> sublist xs (ys @ zs)"
proof -
  assume "sublist xs zs"
  then obtain ps ss where "zs = ps @ xs @ ss"
    unfolding sublist_def by blast
  then have "ys @ zs = (ys @ ps) @ xs @ ss"
    by simp
  then show ?thesis
    unfolding sublist_def by blast
qed

lemma sublist_at_head: "prefix xs ys \<Longrightarrow> sublist xs (ys @ zs)"
  by (auto simp: prefix_def sublist_def intro: exI [of _ "[]"])

lemma button_forms:
  \<open>prefix ''<form action="./mudar_estado_luz_sala"><button>''
     ''<form action="./mudar_estado_luz_sala"><button>Luz da Sala</button></form>''\<close>
  \<open>prefix ''<form action="./mudar_estado_luz_cozinha"><button>''
     ''<form action="./mudar_estado_luz_cozinha"><button>Luz da Cozinha</button></form>''\<close>
  \<open>prefix ''<form action="./mudar_estado_luz_quarto"><button>''
     ''<form action="./mudar_estado_luz_quarto"><button>Luz do Quarto</button></form>''\<close>
  \<open>prefix ''<form action="./mudar_estado_luz_banheiro"><button>''
     ''<form action="./mudar_estado_luz_banheiro"><button>Luz do Banheiro</button></form>''\<close>
  \<open>prefix ''<form action="./mudar_estado_luz_quintal"><button>''
     ''<form action="./mudar_estado_luz_quintal"><button>Luz do Quintal</button></form>''\<close>
  \<open>prefix ''<form action="./mudar_estado_display"><button>''
     ''<form action="./mudar_estado_display"><button>Televis''\<close>
  by code_simp+

lemma page_layout:
  \<open>prefix http_200_html_header html_before_temperature\<close>
  \<open>sublist ''<form action="./mudar_estado_luz_sala"><button>'' html_before_temperature\<close>
  \<open>sublist ''<form action="./mudar_estado_luz_cozinha"><button>'' html_before_temperature\<close>
  \<open>sublist ''<form action="./mudar_estado_luz_quarto"><button>'' html_before_temperature\<close>
  \<open>sublist ''<form action="./mudar_estado_luz_banheiro"><button>'' html_before_temperature\<close>
  \<open>sublist ''<form action="./mudar_estado_luz_quintal"><button>'' html_before_temperature\<close>
  \<open>sublist ''<form action="./mudar_estado_display"><button>'' html_before_temperature\<close>
  \<open>suffix ''<p class="temperature">Temperatura Interna: '' html_before_temperature\<close>
  \<open>prefix '' &deg;C</p>'' html_after_temperature\<close>
proof -
  show \<open>prefix http_200_html_header html_before_temperature\<close>
    by code_simp
  show \<open>prefix '' &deg;C</p>'' html_after_temperature\<close>
    by code_simp
  show \<open>suffix ''<p class="temperature">Temperatura Interna: '' html_before_temperature\<close>
    unfolding html_before_temperature_def
    by (rule suffix_order.refl | rule suffix_appendI)+
  show \<open>sublist ''<form action="./mudar_estado_luz_sala"><button>'' html_before_temperature\<close>
    unfolding html_before_temperature_def
    by (rule sublist_at_head [OF button_forms(1)] | rule sublist_in_tail)+
  show \<open>sublist ''<form action="./mudar_estado_luz_cozinha"><button>'' html_before_temperature\<close>
    unfolding html_before_temperature_def
    by (rule sublist_at_head [OF button_forms(2)] | rule sublist_in_tail)+
  show \<open>sublist ''<form action="./mudar_estado_luz_quarto"><button>'' html_before_temperature\<close>
    unfolding html_before_temperature_def
    by (rule sublist_at_head [OF button_forms(3)] | rule sublist_in_tail)+
  show \<open>sublist ''<form action="./mudar_estado_luz_banheiro"><button>'' html_before_temperature\<close>
    unfolding html_before_temperature_def
    by (rule sublist_at_head [OF button_forms(4)] | rule sublist_in_tail)+
  show \<open>sublist ''<form action="./mudar_estado_luz_quintal"><button>'' html_before_temperature\<close>
    unfolding html_before_temperature_def
    by (rule sublist_at_head [OF button_forms(5)] | rule sublist_in_tail)+
  show \<open>sublist ''<form action="./mudar_estado_display"><button>'' html_before_temperature\<close>
    unfolding html_before_temperature_def
    by (rule sublist_at_head [OF button_forms(6)] | rule sublist_in_tail)+
qed

text \<open>
  C4, amended: when none of the eight recognized command strings occurs anywhere in the
  request (not in its path and not in the rest of its text), routing it changes nothing: all
  six flags, and the rest of the globals, are as before. The receive callback still writes
  and flushes the standard page: the format string of the source with the formatted
  temperature in place of \<open>%.2f\<close>, cut to 2047 bytes and at the first NUL; for a
  temperature text of at most 993 bytes without a NUL that is the whole page. The page
  starts with the status line \<open>HTTP/1.1 200 OK\<close> and the header
  \<open>Content-Type: text/html\<close>, holds the six button forms, and has the temperature after
  "Temperatura Interna: " and before the degree sign.
\<close>

theorem unrecognized_request_noop:
  assumes \<open>\<not> contains_command (c_string payload)\<close>
  shows \<open>user_request (c_string payload) g = g \<and>
    tcp_server_recv fmt_2f (Some payload) raw_value g =
      (g, [Tcp_write (c_string (take 2047
             (html_before_temperature @ fmt_2f (temp_read raw_value) @ html_after_temperature))),
           Tcp_output]) \<and>
    (CHR 0x00 \<notin> set (fmt_2f (temp_read raw_value)) \<and> length (fmt_2f (temp_read raw_value)) \<le> 993
      \<longrightarrow> tcp_server_recv fmt_2f (Some payload) raw_value g =
        (g, [Tcp_write
               (html_before_temperature @ fmt_2f (temp_read raw_value) @ html_after_temperature),
             Tcp_output])) \<and>
    prefix http_200_html_header html_before_temperature \<and>
    sublist ''<form action="./mudar_estado_luz_sala"><button>'' html_before_temperature \<and>
    sublist ''<form action="./mudar_estado_luz_cozinha"><button>'' html_before_temperature \<and>
    sublist ''<form action="./mudar_estado_luz_quarto"><button>'' html_before_temperature \<and>
    sublist ''<form action="./mudar_estado_luz_banheiro"><button>'' html_before_temperature \<and>
    sublist ''<form action="./mudar_estado_luz_quintal"><button>'' html_before_temperature \<and>
    sublist ''<form action="./mudar_estado_display"><button>'' html_before_temperature \<and>
    suffix ''<p class="temperature">Temperatura Interna: '' html_before_temperature \<and>
    prefix '' &deg;C</p>'' html_after_temperature \<and>
    length html_before_temperature = 1026 \<and> length html_after_temperature = 28\<close>
proof -
  have noop: "user_request (c_string payload) g = g"
    using assms user_request_changes_iff [of "c_string payload" g] by simp
  have general: "tcp_server_recv fmt_2f (Some payload) raw_value g =
      (g, [Tcp_write (c_string (take 2047
             (html_before_temperature @ fmt_2f (temp_read raw_value) @ html_after_temperature))),
           Tcp_output])"
    unfolding tcp_server_recv_request noop snprintf_html_def ..
  have fits: "tcp_server_recv fmt_2f (Some payload) raw_value g =
        (g, [Tcp_write
               (html_before_temperature @ fmt_2f (temp_read raw_value) @ html_after_temperature),
             Tcp_output])"
    if "CHR 0x00 \<notin> set (fmt_2f (temp_read raw_value)) \<and> length (fmt_2f (temp_read raw_value)) \<le> 993"
    unfolding tcp_server_recv_request noop
    by (simp only: snprintf_html_fits [where fmt_2f = fmt_2f and t = "temp_read raw_value",
          OF conjunct1 [OF that] conjunct2 [OF that]])
  from fits have fits': "CHR 0x00 \<notin> set (fmt_2f (temp_read raw_value)) \<and>
      length (fmt_2f (temp_read raw_value)) \<le> 993
      \<longrightarrow> tcp_server_recv fmt_2f (Some payload) raw_value g =
        (g, [Tcp_write
               (html_before_temperature @ fmt_2f (temp_read raw_value) @ html_after_temperature),
             Tcp_output])" ..
  show ?thesis
    by (intro conjI noop general fits' page_layout page_parts(3) page_parts(4))
qed

theorem unrecognized_request_noop_witness:
  "\<not> contains_command (c_string (''GET /favicon.ico HTTP/1.1'' @ CRLF @ CRLF)) \<and>
   user_request (c_string (''GET /favicon.ico HTTP/1.1'' @ CRLF @ CRLF)) initial_globals
     = initial_globals \<and>
   tcp_server_recv (\<lambda>t. ''27.14'') (Some (''GET /favicon.ico HTTP/1.1'' @ CRLF @ CRLF)) 876
       initial_globals =
     (initial_globals,
      [Tcp_write (html_before_temperature @ ''27.14'' @ html_after_temperature), Tcp_output])"
proof -
  have h: "\<not> contains_command (c_string (''GET /favicon.ico HTTP/1.1'' @ CRLF @ CRLF))"
    by code_simp
  have f: "CHR 0x00 \<notin> set ''27.14'' \<and> length ''27.14'' \<le> 993"
    by simp
  note t = unrecognized_request_noop [OF h, where g = initial_globals
      and fmt_2f = "\<lambda>t. ''27.14''" and raw_value = 876]
  from t have 1: "user_request (c_string (''GET /favicon.ico HTTP/1.1'' @ CRLF @ CRLF))
      initial_globals = initial_globals"
    by (rule conjunct1)
  from t [THEN conjunct2, THEN conjunct2, THEN conjunct1] f
  have 2: "tcp_server_recv (\<lambda>t. ''27.14'') (Some (''GET /favicon.ico HTTP/1.1'' @ CRLF @ CRLF)) 876
       initial_globals =
     (initial_globals,
      [Tcp_write (html_before_temperature @ ''27.14'' @ html_after_temperature), Tcp_output])"
    by (rule mp)
  from h 1 2 show ?thesis
    by (intro conjI)
qed

section \<open>The LED matrix\<close>

text \<open>The loop writes five words per row, from row 0 (quintal) to row 4 (sala).\<close>

lemma ligar_luz_rows:
  "ligar_luz g =
     replicate 5 (if estado_led_quintal g then 0xFFFFFF00 else 0) @
     replicate 5 (if estado_led_banheiro g then 0xFFFFFF00 else 0) @
     replicate 5 (if estado_led_quarto g then 0xFFFFFF00 else 0) @
     replicate 5 (if estado_led_cozinha g then 0xFFFFFF00 else 0) @
     replicate 5 (if estado_led_sala g then 0xFFFFFF00 else 0)"
  unfolding ligar_luz_def Let_def
  by (simp add: ligar_luz_loop.simps NUM_PIXELS_def numeral_eq_Suc)

text \<open>
  C7: with exactly one of the five room flags set, whatever the display flag and the rest of
  the globals are, one call of \<open>ligar_luz\<close> sends 25 words in row-major order of which
  the 5 of the row of that flag (row 4 sala, 3 cozinha, 2 quarto, 1 banheiro, 0 quintal) are
  the colour \<open>0xFFFFFF00\<close> and the other 20 are 0. The five conjuncts are the five choices
  of the flag.
\<close>

theorem ligar_luz_single_room:
  "ligar_luz (g\<lparr>estado_led_sala := True, estado_led_cozinha := False, estado_led_quarto := False,
       estado_led_banheiro := False, estado_led_quintal := False\<rparr>)
     = replicate 20 0 @ replicate 5 0xFFFFFF00 \<and>
   ligar_luz (g\<lparr>estado_led_sala := False, estado_led_cozinha := True, estado_led_quarto := False,
       estado_led_banheiro := False, estado_led_quintal := False\<rparr>)
     = replicate 15 0 @ replicate 5 0xFFFFFF00 @ replicate 5 0 \<and>
   ligar_luz (g\<lparr>estado_led_sala := False, estado_led_cozinha := False, estado_led_quarto := True,
       estado_led_banheiro := False, estado_led_quintal := False\<rparr>)
     = replicate 10 0 @ replicate 5 0xFFFFFF00 @ replicate 10 0 \<and>
   ligar_luz (g\<lparr>estado_led_sala := False, estado_led_cozinha := False, estado_led_quarto := False,
       estado_led_banheiro := True, estado_led_quintal := False\<rparr>)
     = replicate 5 0 @ replicate 5 0xFFFFFF00 @ replicate 15 0 \<and>
   ligar_luz (g\<lparr>estado_led_sala := False, estado_led_cozinha := False, estado_led_quarto := False,
       estado_led_banheiro := False, estado_led_quintal := True\<rparr>)
     = replicate 5 0xFFFFFF00 @ replicate 20 0 \<and>
   length (ligar_luz g) = 25"
  by (simp add: ligar_luz_rows numeral_eq_Suc)

section \<open>The display\<close>

lemma ligar_display_cases:
  "estado_display g \<Longrightarrow>
     ligar_display g = (g\<lparr>ssd := frame_on, tv := 1\<rparr>, [Send_data frame_on])"
  "\<not> estado_display g \<Longrightarrow> tv g = 1 \<Longrightarrow>
     ligar_display g =
       (g\<lparr>ssd := frame_blank, tv := 0\<rparr>, [Send_data frame_off, Sleep_ms 2000, Send_data frame_blank])"
  "\<not> estado_display g \<Longrightarrow> tv g \<noteq> 1 \<Longrightarrow>
     ligar_display g =
       (g\<lparr>ssd := \<lparr>filled = False,
                  drawn = [Rect 0 0 127 63 True False, Rect 3 3 122 60 True False]\<rparr>\<rparr>, [])"
  by (simp_all add: ligar_display_def moldura_def ssd1306_fill_def ssd1306_rect_def
      ssd1306_draw_string_def frame_on_def frame_off_def frame_blank_def Let_def)

lemma display_cycles_Cons:
  "snd (display_cycles (d # ds) g) =
     snd (ligar_display (g\<lparr>estado_display := d\<rparr>)) @
     snd (display_cycles ds (fst (ligar_display (g\<lparr>estado_display := d\<rparr>))))"
  "fst (display_cycles (d # ds) g) =
     fst (display_cycles ds (fst (ligar_display (g\<lparr>estado_display := d\<rparr>))))"
  by (simp_all split: prod.splits)

text \<open>With the tracker clear, iterations with the flag off send nothing.\<close>

lemma idle_cycles:
  "tv g \<noteq> 1 \<Longrightarrow> snd (display_cycles (replicate n False) g) = []"
proof (induction n arbitrary: g)
  case 0
  then show ?case by simp
next
  case (Suc n)
  let ?g1 = "fst (ligar_display (g\<lparr>estado_display := False\<rparr>))"
  from Suc.prems have a: "tv ?g1 \<noteq> 1"
    and b: "snd (ligar_display (g\<lparr>estado_display := False\<rparr>)) = []"
    by (simp_all add: ligar_display_cases(3))
  have "snd (display_cycles (replicate n False) ?g1) = []"
    by (rule Suc.IH [OF a])
  then show ?case
    by (simp only: replicate_Suc display_cycles_Cons b append_Nil)
qed

lemma frames_distinct:
  "frame_off \<noteq> frame_on" "frame_off \<noteq> frame_blank" "frame_on \<noteq> frame_blank"
  by (simp_all add: frame_on_def frame_off_def frame_blank_def)

text \<open>
  C5: starting with the tracker clear, the display flag being false, true, false in three
  successive iterations and false in any number \<open>n\<close> of further ones, the frames sent are
  exactly: the "on" frame once (in the iteration with the flag true), the "off" frame once
  (in the iteration after it), and, after the pause of 2000 ms, the blank frame; nothing is
  sent in the iterations that follow. In general a call sends the "off" frame exactly when
  the flag is false and \<open>tv\<close> is 1, that is, on a true-to-false edge of the flag.
\<close>

theorem display_off_transient_once:
  "snd (display_cycles ([False, True, False] @ replicate n False) (g\<lparr>tv := 0\<rparr>)) =
     [Send_data frame_on, Send_data frame_off, Sleep_ms 2000, Send_data frame_blank] \<and>
   (Send_data frame_off \<in> set (snd (ligar_display g))) = (\<not> estado_display g \<and> tv g = 1)"
proof
  let ?g0 = "g\<lparr>tv := 0\<rparr>"
  let ?g1 = "fst (ligar_display (?g0\<lparr>estado_display := False\<rparr>))"
  let ?g2 = "fst (ligar_display (?g1\<lparr>estado_display := True\<rparr>))"
  let ?g3 = "fst (ligar_display (?g2\<lparr>estado_display := False\<rparr>))"
  have 1: "snd (ligar_display (?g0\<lparr>estado_display := False\<rparr>)) = []" and tv1: "tv ?g1 = 0"
    by (simp_all add: ligar_display_cases(3))
  have 2: "snd (ligar_display (?g1\<lparr>estado_display := True\<rparr>)) = [Send_data frame_on]"
    and tv2: "tv ?g2 = 1"
    by (simp_all add: ligar_display_cases(1))
  have 3: "snd (ligar_display (?g2\<lparr>estado_display := False\<rparr>)) =
      [Send_data frame_off, Sleep_ms 2000, Send_data frame_blank]"
    and tv3: "tv ?g3 = 0"
    using tv2 by (simp_all add: ligar_display_cases(2))
  have 4: "snd (display_cycles (replicate n False) ?g3) = []"
    using tv3 by (intro idle_cycles) simp
  show "snd (display_cycles ([False, True, False] @ replicate n False) ?g0) =
     [Send_data frame_on, Send_data frame_off, Sleep_ms 2000, Send_data frame_blank]"
    by (simp only: append_Cons append_Nil display_cycles_Cons 1 2 3 4 append_Nil2)
next
  show "(Send_data frame_off \<in> set (snd (ligar_display g))) = (\<not> estado_display g \<and> tv g = 1)"
  proof (cases "estado_display g")
    case True
    then show ?thesis by (simp add: ligar_display_cases(1) frames_distinct)
  next
    case False
    then show ?thesis
      by (cases "tv g = 1") (simp_all add: ligar_display_cases)
  qed
qed

lemma user_request_tv: "tv (user_request request g) = tv g"
  by (simp add: user_request_sublist cyw43_arch_gpio_put_led_def)

text \<open>
  C6: after every call of \<open>ligar_display\<close>, \<open>tv\<close> is 1 if and only if the display flag
  was true during that call, whatever \<open>tv\<close> was before. The call leaves the flag as it
  is, and the request handler does not touch \<open>tv\<close>, so at the start of the next call
  \<open>tv\<close> still records whether the preceding call showed the display as on.
\<close>

theorem tv_tracks_display:
  "(tv (fst (ligar_display g)) = 1) = estado_display g \<and>
   estado_display (fst (ligar_display g)) = estado_display g \<and>
   tv (user_request request g) = tv g"
proof (cases "estado_display g")
  case True
  then show ?thesis by (simp add: ligar_display_cases(1) user_request_tv)
next
  case False
  then show ?thesis
    by (cases "tv g = 1") (simp_all add: ligar_display_cases user_request_tv)
qed

section \<open>Rounding\<close>

lemma round_half_even_error: "\<bar>of_int (round_half_even y) - y\<bar> \<le> 1 / 2"
proof -
  have "of_int \<lfloor>y\<rfloor> \<le> y" "y < of_int \<lfloor>y\<rfloor> + 1" by linarith+
  then show ?thesis
    by (auto simp: round_half_even_def Let_def)
qed

lemma int_bitlen_bounds:
  assumes "0 < a"
  shows "2 powi (bitlen a - 1) \<le> (of_int a :: rat)" and "(of_int a :: rat) < 2 powi bitlen a"
proof -
  from assms have pos: "1 \<le> bitlen a"
    by (simp add: bitlen_alt_def)
  from bitlen_bounds [OF assms] have "(2::int) ^ nat (bitlen a - 1) \<le> a" "a < 2 ^ nat (bitlen a)"
    by simp_all
  then have "(of_int (2 ^ nat (bitlen a - 1)) :: rat) \<le> of_int a"
    "(of_int a :: rat) < of_int (2 ^ nat (bitlen a))"
    by (simp_all only: of_int_le_iff of_int_less_iff)
  with pos show "2 powi (bitlen a - 1) \<le> (of_int a :: rat)" "(of_int a :: rat) < 2 powi bitlen a"
    by (simp_all add: power_int_def)
qed

text \<open>\<open>ilog2\<close> is the binary exponent.\<close>

lemma ilog2_bounds:
  assumes "x \<noteq> 0"
  shows "2 powi ilog2 x \<le> \<bar>x\<bar>" and "\<bar>x\<bar> < 2 powi (ilog2 x + 1)"
proof -
  obtain a b where q: "quotient_of \<bar>x\<bar> = (a, b)" by (cases "quotient_of \<bar>x\<bar>")
  have b: "0 < b" using q by (rule quotient_of_denom_pos)
  have x: "\<bar>x\<bar> = of_int a / of_int b" using q by (rule quotient_of_div)
  have "0 < \<bar>x\<bar>" using assms by simp
  with x b have a: "0 < a" by (simp add: zero_less_divide_iff)
  define c where "c = bitlen a - bitlen b"
  have il: "ilog2 x = (if 2 powi c \<le> \<bar>x\<bar> then c else c - 1)"
    by (simp add: ilog2_def q c_def Let_def)
  have la: "2 powi (bitlen a - 1) \<le> (of_int a :: rat)" and ua: "(of_int a :: rat) < 2 powi bitlen a"
    using int_bitlen_bounds [OF a] by simp_all
  have lb: "2 powi (bitlen b - 1) \<le> (of_int b :: rat)" and ub: "(of_int b :: rat) < 2 powi bitlen b"
    using int_bitlen_bounds [OF b] by simp_all
  have "2 powi (c - 1) = (2 powi (bitlen a - 1) :: rat) / 2 powi bitlen b"
    unfolding c_def by (subst power_int_diff [symmetric]) (simp_all add: algebra_simps)
  also have "\<dots> \<le> of_int a / of_int b"
    using la ub a b by (intro frac_le) simp_all
  finally have low: "2 powi (c - 1) \<le> \<bar>x\<bar>" by (simp add: x)
  have "\<bar>x\<bar> = of_int a / of_int b" by (rule x)
  also have "\<dots> < (2 powi bitlen a :: rat) / 2 powi (bitlen b - 1)"
    using ua lb a by (intro frac_less) simp_all
  also have "\<dots> = 2 powi (c + 1)"
    unfolding c_def by (subst power_int_diff [symmetric]) (simp_all add: algebra_simps)
  finally have up: "\<bar>x\<bar> < 2 powi (c + 1)" .
  show "2 powi ilog2 x \<le> \<bar>x\<bar>" using low by (simp add: il)
  show "\<bar>x\<bar> < 2 powi (ilog2 x + 1)" using up by (auto simp: il not_le)
qed

text \<open>Rounding moves a value by at most half the spacing of the format around it.\<close>

lemma round_to_binary_error_ulp:
  assumes "x \<noteq> 0"
  shows "\<bar>round_to_binary p emin x - x\<bar> \<le> 2 powi (max (ilog2 x) emin - int p)"
proof -
  define u :: rat where "u = 2 powi (max (ilog2 x) emin - int p + 1)"
  have u: "0 < u" by (simp add: u_def)
  have r: "round_to_binary p emin x = of_int (round_half_even (x / u)) * u"
    using assms by (simp add: round_to_binary_def u_def Let_def)
  have "of_int (round_half_even (x / u)) * u - x = (of_int (round_half_even (x / u)) - x / u) * u"
    using u by (simp add: left_diff_distrib)
  then have "\<bar>of_int (round_half_even (x / u)) * u - x\<bar> =
      \<bar>of_int (round_half_even (x / u)) - x / u\<bar> * \<bar>u\<bar>"
    by (simp only: abs_mult)
  also have "\<dots> = \<bar>of_int (round_half_even (x / u)) - x / u\<bar> * u"
    using u by simp
  also have "\<dots> \<le> 1 / 2 * u"
    using u round_half_even_error [of "x / u"] by (intro mult_right_mono) simp_all
  also have "\<dots> = 2 powi (max (ilog2 x) emin - int p)"
    unfolding u_def by (simp add: power_int_add)
  finally show ?thesis by (simp add: r)
qed

lemma round_to_binary_error:
  "\<bar>round_to_binary p emin x - x\<bar> \<le> \<bar>x\<bar> * 2 powi (- int p) + 2 powi (emin - int p)"
proof (cases "x = 0")
  case True
  then show ?thesis by (simp add: round_to_binary_def)
next
  case False
  show ?thesis
  proof (cases "emin \<le> ilog2 x")
    case True
    have "\<bar>round_to_binary p emin x - x\<bar> \<le> 2 powi (ilog2 x - int p)"
      using round_to_binary_error_ulp [OF False, of p emin] True by (simp add: max_def)
    also have "\<dots> = 2 powi ilog2 x * 2 powi (- int p)"
      by (simp add: power_int_diff power_int_minus field_simps)
    also have "\<dots> \<le> \<bar>x\<bar> * 2 powi (- int p)"
      using ilog2_bounds(1) [OF False] by (intro mult_right_mono) simp_all
    also have "\<dots> \<le> \<bar>x\<bar> * 2 powi (- int p) + 2 powi (emin - int p)"
      by simp
    finally show ?thesis .
  next
    case False
    have "\<bar>round_to_binary p emin x - x\<bar> \<le> 2 powi (emin - int p)"
      using round_to_binary_error_ulp [OF \<open>x \<noteq> 0\<close>, of p emin] False by (simp add: max_def)
    also have "\<dots> \<le> \<bar>x\<bar> * 2 powi (- int p) + 2 powi (emin - int p)"
      by simp
    finally show ?thesis .
  qed
qed

lemma to_float_error: "\<bar>to_float x - x\<bar> \<le> \<bar>x\<bar> / 2 ^ 24 + 1 / 2 ^ 150"
  using round_to_binary_error [of 24 "- 126" x]
  by (simp add: to_float_def power_int_minus field_simps)

lemma to_double_error: "\<bar>to_double x - x\<bar> \<le> \<bar>x\<bar> / 2 ^ 53 + 1 / 2 ^ 1075"
  using round_to_binary_error [of 53 "- 1022" x]
  by (simp add: to_double_def power_int_minus field_simps)

lemma float_constants:
  "to_float (33 / 10) = 13841203 / 4194304"
  "to_float (2 ^ 12) = 4096"
  "conversion_factor = 13841203 / 17179869184"
  "to_float (706 / 1000) = 5922357 / 8388608"
  "to_float (1721 / 1000000) = 14783277 / 8589934592"
  "to_float 27 = 27"
  "to_double 58 = 58"
  by code_simp+

lemma to_float_error_bound:
  assumes "\<bar>x\<bar> \<le> M"
  shows "\<bar>to_float x - x\<bar> \<le> M / 2 ^ 24 + 1 / 2 ^ 150"
proof -
  have "\<bar>x\<bar> / 2 ^ 24 \<le> M / 2 ^ 24"
    using assms by (simp add: divide_right_mono)
  with to_float_error [of x] show ?thesis by linarith
qed

section \<open>The temperature\<close>

text \<open>
  C9: for every 12-bit sample, the temperature that \<open>temp_read\<close> computes in single
  precision is within 0.01 degrees of the documented formula
  \<open>27 - ((raw * 3.3 / 4096) - 0.706) / 0.001721\<close> evaluated exactly.
\<close>

theorem temp_read_within_tolerance:
  assumes "unat raw_value < 4096"
  shows "\<bar>temp_read raw_value - documented_temperature (unat raw_value)\<bar> \<le> 1 / 100"
proof -
  define r :: rat where "r = of_nat (unat raw_value)"
  define r' where "r' = to_float r"
  define a where "a = to_float (r' * (13841203 / 17179869184))"
  define b where "b = to_float (a - 5922357 / 8388608)"
  define d where "d = to_float (b / (14783277 / 8589934592))"
  define t where "t = to_float (27 - d)"
  have t: "temp_read raw_value = t"
    by (simp only: temp_read_def float_constants t_def d_def b_def a_def r'_def r_def)
  have doc: "documented_temperature (unat raw_value) =
      27 - (r * (33 / 40960) - 706 / 1000) * (1000000 / 1721)"
    by (simp add: documented_temperature_def r_def)
  have "unat raw_value \<le> 4095"
    using assms by simp
  then have "(of_nat (unat raw_value) :: rat) \<le> of_nat 4095"
    by (rule of_nat_mono)
  moreover have "(of_nat 4095 :: rat) = 4095"
    by simp
  ultimately have r: "0 \<le> r" "r \<le> 4095"
    unfolding r_def by (simp_all only: of_nat_0_le_iff)
  define X1 where "X1 = r * (33 / 40960)"
  define X2 where "X2 = X1 - 706 / 1000"
  define X3 where "X3 = X2 * (1000000 / 1721)"
  have X1: "0 \<le> X1" "X1 \<le> 4"
    using r unfolding X1_def by linarith+
  have X2: "\<bar>X2\<bar> \<le> 4"
    using X1 unfolding X2_def by linarith
  have doc': "documented_temperature (unat raw_value) = 27 - X3"
    unfolding doc X3_def X2_def X1_def ..
  from r have "\<bar>r\<bar> \<le> 4095" by simp
  from to_float_error_bound [OF this] have r': "\<bar>r' - r\<bar> \<le> 1 / 4000"
    unfolding r'_def by simp
  have x1: "\<bar>r' * (13841203 / 17179869184)\<bar> \<le> 4"
    using r r' by linarith
  from to_float_error_bound [OF x1] have "\<bar>a - r' * (13841203 / 17179869184)\<bar> \<le> 1 / 4000000"
    unfolding a_def by simp
  with r r' have a: "\<bar>a - X1\<bar> \<le> 1 / 2000000"
    unfolding X1_def by linarith
  with X1 have x2: "\<bar>a - 5922357 / 8388608\<bar> \<le> 5"
    by linarith
  from to_float_error_bound [OF x2] have "\<bar>b - (a - 5922357 / 8388608)\<bar> \<le> 1 / 3000000"
    unfolding b_def by simp
  with a have b: "\<bar>b - X2\<bar> \<le> 1 / 1000000"
    unfolding X2_def by linarith
  have bk: "b / (14783277 / 8589934592) = b * (8589934592 / 14783277)"
    by simp
  have x3: "\<bar>b * (8589934592 / 14783277)\<bar> \<le> 3000"
    using b X2 by linarith
  from to_float_error_bound [OF x3] have "\<bar>d - b * (8589934592 / 14783277)\<bar> \<le> 1 / 5000"
    unfolding d_def bk by simp
  with b X2 have d: "\<bar>d - X3\<bar> \<le> 1 / 500"
    unfolding X3_def by linarith
  have "\<bar>X3\<bar> \<le> 3000"
    using X2 unfolding X3_def by linarith
  with d have x4: "\<bar>27 - d\<bar> \<le> 3100"
    by linarith
  from to_float_error_bound [OF x4] have "\<bar>t - (27 - d)\<bar> \<le> 1 / 5000"
    unfolding t_def by simp
  with d show ?thesis
    unfolding t doc' by linarith
qed

theorem temp_read_within_tolerance_witness:
  "unat (2048 :: 16 word) < 4096 \<and>
   \<bar>temp_read 2048 - documented_temperature (unat (2048 :: 16 word))\<bar> \<le> 1 / 100"
  using temp_read_within_tolerance [of 2048] by simp

text \<open>One sample followed through the five operations.\<close>

lemma temp_read_876: "temp_read 876 = 7114177 / 262144"
proof -
  have u: "(of_nat (unat (876 :: 16 word)) :: rat) = 876"
    by simp
  have a: "to_float 876 = 876"
    "to_float (876 * conversion_factor) = 11840717 / 16777216"
    "to_float (11840717 / 16777216 - to_float (706 / 1000)) = - (3997 / 16777216)"
    "to_float (- (3997 / 16777216) / to_float (1721 / 1000000)) = - (2322487 / 16777216)"
    "to_float (to_float 27 - - (2322487 / 16777216)) = 7114177 / 262144"
    by code_simp+
  show ?thesis
    unfolding temp_read_def u a ..
qed

section \<open>The distance measurement\<close>

text \<open>A wait loop returns the first index from where it starts at which the level is right.\<close>

lemma wait_echo_high_Some:
  "echo k \<Longrightarrow> n \<le> k \<Longrightarrow> (\<forall>i. n \<le> i \<and> i < k \<longrightarrow> \<not> echo i) \<Longrightarrow>
     wait_echo_high echo n = Some k"
proof (induction "k - n" arbitrary: n)
  case 0
  then show ?case by (subst wait_echo_high.simps) simp
next
  case (Suc d)
  then have "\<not> echo n" "Suc d = k - n" by auto
  moreover have "wait_echo_high echo (n + 1) = Some k"
    using Suc by (intro Suc.hyps) auto
  ultimately show ?case by (subst wait_echo_high.simps) simp
qed

lemma wait_echo_high_SomeD:
  assumes "wait_echo_high echo n = Some k"
  shows "n \<le> k \<and> echo k \<and> (\<forall>i. n \<le> i \<and> i < k \<longrightarrow> \<not> echo i)"
proof (rule wait_echo_high.raw_induct
    [where P = "\<lambda>echo n k. n \<le> k \<and> echo k \<and> (\<forall>i. n \<le> i \<and> i < k \<longrightarrow> \<not> echo i)", OF _ assms])
  fix w :: "(nat \<Rightarrow> bool) \<Rightarrow> nat \<Rightarrow> nat option" and echo n k
  assume IH: "\<And>e m y. w e m = Some y \<Longrightarrow>
      m \<le> y \<and> e y \<and> (\<forall>i. m \<le> i \<and> i < y \<longrightarrow> \<not> e i)"
    and eq: "(if echo n = False then w echo (n + 1) else Some n) = Some k"
  show "n \<le> k \<and> echo k \<and> (\<forall>i. n \<le> i \<and> i < k \<longrightarrow> \<not> echo i)"
  proof (cases "echo n")
    case True
    with eq show ?thesis by auto
  next
    case False
    with eq have "w echo (n + 1) = Some k" by simp
    then have "n + 1 \<le> k \<and> echo k \<and> (\<forall>i. n + 1 \<le> i \<and> i < k \<longrightarrow> \<not> echo i)"
      by (rule IH)
    with False show ?thesis
      by (metis Suc_eq_plus1 Suc_leI le_neq_implies_less nat_le_linear not_less_eq_eq)
  qed
qed

lemma wait_echo_low_Some:
  "\<not> echo j \<Longrightarrow> n \<le> j \<Longrightarrow> (\<forall>i. n \<le> i \<and> i < j \<longrightarrow> echo i) \<Longrightarrow>
     wait_echo_low echo n = Some j"
proof (induction "j - n" arbitrary: n)
  case 0
  then show ?case by (subst wait_echo_low.simps) simp
next
  case (Suc d)
  then have "echo n" "Suc d = j - n" by auto
  moreover have "wait_echo_low echo (n + 1) = Some j"
    using Suc by (intro Suc.hyps) auto
  ultimately show ?case by (subst wait_echo_low.simps) simp
qed

lemma wait_echo_low_SomeD:
  assumes "wait_echo_low echo n = Some j"
  shows "n \<le> j \<and> \<not> echo j \<and> (\<forall>i. n \<le> i \<and> i < j \<longrightarrow> echo i)"
proof (rule wait_echo_low.raw_induct
    [where P = "\<lambda>echo n j. n \<le> j \<and> \<not> echo j \<and> (\<forall>i. n \<le> i \<and> i < j \<longrightarrow> echo i)", OF _ assms])
  fix w :: "(nat \<Rightarrow> bool) \<Rightarrow> nat \<Rightarrow> nat option" and echo n j
  assume IH: "\<And>e m y. w e m = Some y \<Longrightarrow>
      m \<le> y \<and> \<not> e y \<and> (\<forall>i. m \<le> i \<and> i < y \<longrightarrow> e i)"
    and eq: "(if echo n = True then w echo (n + 1) else Some n) = Some j"
  show "n \<le> j \<and> \<not> echo j \<and> (\<forall>i. n \<le> i \<and> i < j \<longrightarrow> echo i)"
  proof (cases "echo n")
    case False
    with eq show ?thesis by auto
  next
    case True
    with eq have "w echo (n + 1) = Some j" by simp
    then have "n + 1 \<le> j \<and> \<not> echo j \<and> (\<forall>i. n + 1 \<le> i \<and> i < j \<longrightarrow> echo i)"
      by (rule IH)
    with True show ?thesis
      by (metis Suc_eq_plus1 Suc_leI le_neq_implies_less nat_le_linear not_less_eq_eq)
  qed
qed

lemma first_index:
  fixes P :: "nat \<Rightarrow> bool"
  assumes "P m" "n \<le> m"
  shows "\<exists>k. n \<le> k \<and> k \<le> m \<and> P k \<and> (\<forall>i. n \<le> i \<and> i < k \<longrightarrow> \<not> P i)"
proof -
  define k where "k = (LEAST k. n \<le> k \<and> P k)"
  have ex: "n \<le> m \<and> P m" using assms by simp
  then have "n \<le> k \<and> P k" unfolding k_def by (rule LeastI)
  moreover have "k \<le> m" unfolding k_def using ex by (rule Least_le)
  moreover have "\<not> P i" if "n \<le> i \<and> i < k" for i
    using that not_less_Least [of i "\<lambda>k. n \<le> k \<and> P k"] unfolding k_def by auto
  ultimately show ?thesis by blast
qed

text \<open>The quotient computed in double and single precision is the exact one up to rounding.\<close>

lemma rounding_chain:
  fixes x0 x1 x2 x3 :: rat
  assumes e1: "\<bar>x1 - x0\<bar> \<le> \<bar>x0\<bar> / 2 ^ 53 + 1 / 2 ^ 1075"
    and e2: "\<bar>x2 - x1 / 58\<bar> \<le> \<bar>x1 / 58\<bar> / 2 ^ 53 + 1 / 2 ^ 1075"
    and e3: "\<bar>x3 - x2\<bar> \<le> \<bar>x2\<bar> / 2 ^ 24 + 1 / 2 ^ 150"
  shows "\<bar>x3 - x0 / 58\<bar> \<le> \<bar>x0 / 58\<bar> / 2 ^ 23 + 1 / 2 ^ 149"
proof -
  define A0 where "A0 = \<bar>x0 / 58\<bar>"
  define A1 where "A1 = \<bar>x1 / 58\<bar>"
  define A2 where "A2 = \<bar>x2\<bar>"
  define D1 where "D1 = \<bar>x1 / 58 - x0 / 58\<bar>"
  define D2 where "D2 = \<bar>x2 - x1 / 58\<bar>"
  define D3 where "D3 = \<bar>x3 - x2\<bar>"
  define G where "G = \<bar>x3 - x0 / 58\<bar>"
  have d1: "D1 \<le> A0 / 2 ^ 53 + 1 / 2 ^ 1075"
  proof -
    have "D1 = \<bar>x1 - x0\<bar> / 58"
      by (simp only: D1_def diff_divide_distrib [symmetric] abs_divide abs_numeral)
    moreover have "A0 = \<bar>x0\<bar> / 58"
      by (simp only: A0_def abs_divide abs_numeral)
    moreover have "\<bar>x1 - x0\<bar> / 58 \<le> (\<bar>x0\<bar> / 2 ^ 53 + 1 / 2 ^ 1075) / 58"
      using e1 by (rule divide_right_mono) simp
    ultimately show ?thesis
      by (simp add: add_divide_distrib)
  qed
  have d2: "D2 \<le> A1 / 2 ^ 53 + 1 / 2 ^ 1075"
    using e2 unfolding D2_def A1_def .
  have d3: "D3 \<le> A2 / 2 ^ 24 + 1 / 2 ^ 150"
    using e3 unfolding D3_def A2_def .
  have t1: "A1 \<le> A0 + D1"
    unfolding A1_def A0_def D1_def by linarith
  have t2: "A2 \<le> A1 + D2"
    unfolding A2_def A1_def D2_def by linarith
  have t3: "G \<le> D3 + D2 + D1"
    unfolding G_def D3_def D2_def D1_def by linarith
  have pos: "0 \<le> A0"
    unfolding A0_def by simp
  have "G \<le> A0 / 2 ^ 23 + 1 / 2 ^ 149"
    using d1 d2 d3 t1 t2 t3 pos by simp
  then show ?thesis
    unfolding G_def A0_def .
qed

lemma distance_cm_of_accuracy:
  "\<bar>distance_cm_of d - of_int d / 58\<bar> \<le> \<bar>of_int d / 58\<bar> / 2 ^ 23 + 1 / 2 ^ 149"
  unfolding distance_cm_of_def float_constants
  by (rule rounding_chain [OF to_double_error to_double_error to_float_error])

text \<open>
  C8: \<open>measure_distance_cm\<close> returns if and only if some read of the echo line is high
  and a later one is low. When the line is first high at read \<open>k\<close> and first low again at
  read \<open>j\<close>, the result is the difference of the two timestamps in microseconds divided by
  58.0 in floating point, which is the exact quotient up to a relative error of
  \<open>2 ^ -23\<close>. For an echo input without such a transition the function does not return:
  there is no bound on the wait.
\<close>

theorem measure_distance_cm_returns_iff:
  "(measure_distance_cm echo clock \<noteq> None) = (\<exists>k j. k < j \<and> echo k \<and> \<not> echo j) \<and>
   ((\<forall>i. i < k \<longrightarrow> \<not> echo i) \<and> echo k \<and> k < j \<and> (\<forall>i. k < i \<and> i < j \<longrightarrow> echo i) \<and> \<not> echo j
      \<longrightarrow> measure_distance_cm echo clock = Some (distance_cm_of (sint (clock j - clock k)))) \<and>
   \<bar>distance_cm_of d - of_int d / 58\<bar> \<le> \<bar>of_int d / 58\<bar> / 2 ^ 23 + 1 / 2 ^ 149"
proof (intro conjI impI)
  show "\<bar>distance_cm_of d - of_int d / 58\<bar> \<le> \<bar>of_int d / 58\<bar> / 2 ^ 23 + 1 / 2 ^ 149"
    by (rule distance_cm_of_accuracy)
next
  assume a: "(\<forall>i. i < k \<longrightarrow> \<not> echo i) \<and> echo k \<and> k < j \<and>
    (\<forall>i. k < i \<and> i < j \<longrightarrow> echo i) \<and> \<not> echo j"
  then have "wait_echo_high echo 0 = Some k"
    by (intro wait_echo_high_Some) auto
  moreover from a have "wait_echo_low echo (k + 1) = Some j"
    by (intro wait_echo_low_Some) auto
  ultimately show "measure_distance_cm echo clock = Some (distance_cm_of (sint (clock j - clock k)))"
    by (simp add: measure_distance_cm_def)
next
  show "(measure_distance_cm echo clock \<noteq> None) = (\<exists>k j. k < j \<and> echo k \<and> \<not> echo j)"
  proof
    assume "measure_distance_cm echo clock \<noteq> None"
    then obtain k j where "wait_echo_high echo 0 = Some k" "wait_echo_low echo (k + 1) = Some j"
      by (auto simp: measure_distance_cm_def Let_def split: option.splits)
    then have "echo k" "k + 1 \<le> j" "\<not> echo j"
      using wait_echo_high_SomeD [of echo 0 k] wait_echo_low_SomeD [of echo "k + 1" j] by auto
    then show "\<exists>k j. k < j \<and> echo k \<and> \<not> echo j"
      by (intro exI [of _ k] exI [of _ j]) simp
  next
    assume "\<exists>k j. k < j \<and> echo k \<and> \<not> echo j"
    then obtain k j where kj: "k < j" "echo k" "\<not> echo j" by blast
    from first_index [of echo k 0] kj obtain k0 where
      k0: "k0 \<le> k" "echo k0" "\<forall>i. 0 \<le> i \<and> i < k0 \<longrightarrow> \<not> echo i" by auto
    from first_index [of "\<lambda>i. \<not> echo i" j "k0 + 1"] kj k0 obtain j0 where
      j0: "k0 + 1 \<le> j0" "\<not> echo j0" "\<forall>i. k0 + 1 \<le> i \<and> i < j0 \<longrightarrow> echo i" by auto
    have "wait_echo_high echo 0 = Some k0"
      using k0 by (intro wait_echo_high_Some) auto
    moreover have "wait_echo_low echo (k0 + 1) = Some j0"
      using j0 by (intro wait_echo_low_Some) auto
    ultimately show "measure_distance_cm echo clock \<noteq> None"
      by (simp add: measure_distance_cm_def)
  qed
qed

text \<open>
  The echo is high at reads 2, 3 and 4 and the counter advances 100 microseconds per read:
  the pulse is measured from read 2 to read 5.
\<close>

theorem measure_distance_cm_returns_iff_witness:
  "measure_distance_cm (\<lambda>n. 2 \<le> n \<and> n < 5) (\<lambda>n. of_nat (1000 + 100 * n))
     = Some (distance_cm_of 300)"
  using measure_distance_cm_returns_iff
    [of "\<lambda>n. 2 \<le> n \<and> n < 5" "\<lambda>n. of_nat (1000 + 100 * n)" 2 5]
  by simp

lemma distance_cm_of_300: "distance_cm_of 300 = 5423669 / 1048576"
  by code_simp

text \<open>A line that stays low, and one that stays high, stall the function.\<close>

lemma measure_distance_cm_stalls:
  "measure_distance_cm (\<lambda>n. False) clock = None"
  "measure_distance_cm (\<lambda>n. True) clock = None"
proof -
  have "\<not> (\<exists>k j. k < j \<and> (\<lambda>n. False) k \<and> \<not> (\<lambda>n. False) j)"
    "\<not> (\<exists>k j. k < j \<and> (\<lambda>n. True) k \<and> \<not> (\<lambda>n. True) j)"
    by simp_all
  then show "measure_distance_cm (\<lambda>n. False) clock = None"
    "measure_distance_cm (\<lambda>n. True) clock = None"
    using wait_echo_high_SomeD [of "\<lambda>n. False" 0] wait_echo_low_SomeD [of "\<lambda>n. True"]
    by (auto simp: measure_distance_cm_def split: option.splits)
qed

end
